theory Spec2Isabelle
  imports Complex_Main "HOL-Library.AList" "HOL-Library.Word"
begin

section \<open>Results of fallible calls\<close>

text \<open>
  Every \<^verbatim>\<open>throw\<close> of \<^verbatim>\<open>curl.cpp\<close> is a value of \<open>error\<close>. A member call through an
  empty \<^verbatim>\<open>boost::shared_ptr\<close> (\<^verbatim>\<open>operator->\<close> on a null pointer) does not return
  either; it is the value \<open>Null_dereference\<close>. A stateful operation returns its result
  together with the state it leaves behind: an exception does not undo what was done
  before it was thrown.
\<close>

datatype error =
    Runtime_error_curl int      \<comment> \<open>\<^verbatim>\<open>std::runtime_error(curl_easy_strerror(code))\<close>\<close>
  | Runtime_error_curlm int     \<comment> \<open>\<^verbatim>\<open>std::runtime_error(curl_multi_strerror(code))\<close>\<close>
  | Runtime_error_append        \<comment> \<open>\<^verbatim>\<open>"Unable to append a value to the list"\<close>\<close>
  | Null_dereference            \<comment> \<open>\<^verbatim>\<open>operator->\<close> on an empty shared pointer\<close>
  | Dangling_pointer            \<comment> \<open>a read of memory that has been freed\<close>
  | Undefined_conversion        \<comment> \<open>a floating value outside the range of the target integer\<close>
  | System_error                \<comment> \<open>\<^verbatim>\<open>boost::system::system_error\<close>, thrown by the reactor\<close>

type_synonym ('a, 's) outcome = "(error + 'a) \<times> 's"

definition and_then ::
  "('s \<Rightarrow> ('a, 's) outcome) \<Rightarrow> ('a \<Rightarrow> 's \<Rightarrow> ('b, 's) outcome) \<Rightarrow> 's \<Rightarrow> ('b, 's) outcome" where
  "and_then f g s =
     (case f s of
        (Inl e, s1) \<Rightarrow> (Inl e, s1)
      | (Inr x, s1) \<Rightarrow> g x s1)"

text \<open>The result codes of the engine: \<open>0\<close> is success in both families.\<close>

definition CURLE_OK :: int where "CURLE_OK = 0"
definition CURLM_OK :: int where "CURLM_OK = 0"
definition CURLM_ADDED_ALREADY :: int where "CURLM_ADDED_ALREADY = 7"

definition throw_if_curl_error :: "int \<Rightarrow> error + unit" where
  "throw_if_curl_error errorcode =
     (if errorcode \<noteq> CURLE_OK then Inl (Runtime_error_curl errorcode) else Inr ())"

definition throw_if_curlm_error :: "int \<Rightarrow> error + unit" where
  "throw_if_curlm_error errorcode =
     (if errorcode \<noteq> CURLM_OK then Inl (Runtime_error_curlm errorcode) else Inr ())"

section \<open>The transfer engine, as far as the adapter drives it\<close>

text \<open>
  The engine is an external library. What follows is its documented contract for the
  calls that \<^verbatim>\<open>curl.cpp\<close> makes on a multi handle, as a recording stub: the set of
  transfers the multi handle tracks, the queue of messages it has not delivered yet,
  and the list of progress calls it has received. A raw engine pointer (\<^verbatim>\<open>CURL*\<close>) is
  an address.

  While it adds or removes a transfer the engine calls back into the application:
  it reports its new timeout through the timer function, tells which sockets it
  watches through the socket function, and closes sockets through the close-socket
  function of the transfer. Which calls it makes, and with which values, is the
  engine's own matter, so the engine carries them as its plan: one list of calls for
  each coming addition or removal that changes what it tracks. Every behaviour of
  the engine is some plan; a statement about every state is a statement about every
  plan.
\<close>

type_synonym CURL = nat

datatype CURLMSG = CURLMSG_NONE | CURLMSG_DONE | CURLMSG_LAST

record CURLMsg =
  msg :: CURLMSG
  easy_handle :: CURL
  result :: int

datatype engine_callback =
    Timer_function int           \<comment> \<open>\<^verbatim>\<open>CURLMOPT_TIMERFUNCTION\<close>, with the timeout in milliseconds\<close>
  | Socket_function int int      \<comment> \<open>\<^verbatim>\<open>CURLMOPT_SOCKETFUNCTION\<close>, with a socket and an action\<close>
  | Closesocket_function int     \<comment> \<open>\<^verbatim>\<open>CURLOPT_CLOSESOCKETFUNCTION\<close>, with a socket\<close>

record engine =
  easy_handles :: "CURL set"
  msg_queue :: "CURLMsg list"
  socket_actions :: "(int \<times> int) list"
  callbacks :: "engine_callback list list"

definition due_callbacks :: "engine \<Rightarrow> engine_callback list" where
  "due_callbacks m = (case callbacks m of [] \<Rightarrow> [] | cbs # _ \<Rightarrow> cbs)"

text \<open>
  \<^verbatim>\<open>curl_multi_add_handle\<close>: a transfer that is tracked already is refused, before
  anything else happens. Otherwise the transfer is tracked, and the engine makes the
  calls that are due; the result holds them for the caller's side to run.
\<close>

definition curl_multi_add_handle :: "engine \<Rightarrow> CURL \<Rightarrow> (int \<times> engine_callback list) \<times> engine" where
  "curl_multi_add_handle m e =
     (if e \<in> easy_handles m then ((CURLM_ADDED_ALREADY, []), m)
      else ((CURLM_OK, due_callbacks m),
            m\<lparr>easy_handles := insert e (easy_handles m), callbacks := tl (callbacks m)\<rparr>))"

text \<open>
  \<^verbatim>\<open>curl_multi_remove_handle\<close>: removing a transfer that is not tracked is fine and
  does nothing. Otherwise the transfer is dropped, and the engine makes the calls
  that are due.
\<close>

definition curl_multi_remove_handle :: "engine \<Rightarrow> CURL \<Rightarrow> (int \<times> engine_callback list) \<times> engine" where
  "curl_multi_remove_handle m e =
     (if e \<notin> easy_handles m then ((CURLM_OK, []), m)
      else ((CURLM_OK, due_callbacks m),
            m\<lparr>easy_handles := easy_handles m - {e}, callbacks := tl (callbacks m)\<rparr>))"

text \<open>\<^verbatim>\<open>curl_multi_info_read\<close>: the next message, or the null pointer.\<close>

definition curl_multi_info_read :: "engine \<Rightarrow> CURLMsg option \<times> engine" where
  "curl_multi_info_read m =
     (case msg_queue m of
        [] \<Rightarrow> (None, m)
      | x # xs \<Rightarrow> (Some x, m\<lparr>msg_queue := xs\<rparr>))"

text \<open>
  \<^verbatim>\<open>curl_multi_socket_action\<close>: the stub records the call. The progress the real
  engine makes during it is not part of the model.
\<close>

definition curl_multi_socket_action :: "engine \<Rightarrow> int \<Rightarrow> int \<Rightarrow> int \<times> engine" where
  "curl_multi_socket_action m sockfd ev_bitmask =
     (CURLM_OK, m\<lparr>socket_actions := socket_actions m @ [(sockfd, ev_bitmask)]\<rparr>)"

text \<open>
  The four options \<^verbatim>\<open>curl_multi_asio\<close> sets on a transfer, and the values it gives them.
  \<^verbatim>\<open>curl_easy_setopt\<close> stores the value in the engine's transfer object and succeeds.
\<close>

datatype CURLoption =
    CURLOPT_OPENSOCKETFUNCTION
  | CURLOPT_OPENSOCKETDATA
  | CURLOPT_CLOSESOCKETFUNCTION
  | CURLOPT_CLOSESOCKETDATA

datatype option_value =
    Nullptr
  | Open_socket_callback
  | Close_socket_callback
  | This

type_synonym easy_options = "CURL \<Rightarrow> CURLoption \<Rightarrow> option_value"

definition curl_easy_setopt ::
  "easy_options \<Rightarrow> CURL \<Rightarrow> CURLoption \<Rightarrow> option_value \<Rightarrow> int \<times> easy_options" where
  "curl_easy_setopt opts e opt v = (CURLE_OK, opts(e := (opts e)(opt := v)))"

section \<open>The reactor, as far as the adapter drives it\<close>

text \<open>
  An error code of the reactor is either success (the default-constructed
  \<^verbatim>\<open>boost::system::error_code\<close>) or the code a cancelled wait completes with.
\<close>

datatype error_code = Success | Operation_aborted

text \<open>
  A completion callback is a \<^verbatim>\<open>boost::function\<close>: empty, or a callable with an
  identity.
\<close>

datatype callback = Empty_function | Callback nat

text \<open>
  The work the code hands to the reactor: a call of \<^verbatim>\<open>timer_callback\<close> with an error
  code, the body of \<^verbatim>\<open>post_handle\<close>, the body of \<^verbatim>\<open>async_clear\<close>, and a completion
  callback bound to an error code.
\<close>

datatype curl = Curl (raw: CURL)

datatype task =
    Timer_callback error_code
  | Add_handle "curl option" callback
  | Clear callback
  | Invoke callback error_code

text \<open>
  A \<^verbatim>\<open>deadline_timer\<close>: its expiry in milliseconds from the moment it was set, and the
  handlers of the waits that are outstanding.
\<close>

record deadline_timer =
  expiry :: "int option"
  waits :: "(error_code \<Rightarrow> task) list"

datatype protocol = Tcp_v4 | Tcp_v6

record tcp_socket =
  native_handle :: int
  socket_protocol :: protocol

section \<open>The multiplexer and its asynchronous adapter\<close>

text \<open>
  A \<^verbatim>\<open>curl\<close> object owns one engine transfer, so it is identified by its raw pointer;
  a \<^verbatim>\<open>boost::shared_ptr<curl>\<close> is a \<open>curl option\<close>, \<open>None\<close> being the empty pointer,
  and so is the shared pointer to a socket that the socket table holds.
  An association holds the transfer it registered. The association map is kept as a
  list of entries with distinct keys; the order of the entries carries no meaning.
\<close>

datatype curl_association = Curl_association (get_curl: curl)

record curl_multi_asio =
  m_curlm :: engine
  options :: easy_options
  m_associations :: "(CURL \<times> curl_association) list"
  m_handler_map :: "curl option \<rightharpoonup> callback"
  m_socket_map :: "int \<rightharpoonup> tcp_socket option"
  m_timer :: deadline_timer
  m_strand :: "task list"
  m_io_service :: "task list"
  invoked :: "(callback \<times> error_code option) list"

text \<open>\<^verbatim>\<open>curl::set_option\<close>, called through a shared pointer.\<close>

definition set_option ::
  "curl option \<Rightarrow> CURLoption \<Rightarrow> option_value \<Rightarrow> curl_multi_asio \<Rightarrow> (unit, curl_multi_asio) outcome" where
  "set_option handle opt v s =
     (case handle of
        None \<Rightarrow> (Inl Null_dereference, s)
      | Some c \<Rightarrow>
          (case curl_easy_setopt (options s) (raw c) opt v of
             (rc, opts) \<Rightarrow> (throw_if_curl_error rc, s\<lparr>options := opts\<rparr>)))"

section \<open>The timer and the hooks the engine calls\<close>

text \<open>
  The reactor's timer, after its documentation. \<^verbatim>\<open>cancel\<close> completes every
  outstanding wait with \<open>Operation_aborted\<close>; \<^verbatim>\<open>expires_from_now\<close> does the same and
  sets the expiry; \<^verbatim>\<open>async_wait\<close> adds a wait. A completed wait's handler is not
  called in place: the handlers here are wrapped by the strand, so their calls are
  queued on the strand. \<open>timer_expires\<close> is the reactor's own step when the expiry is
  reached: the outstanding waits complete with \<open>Success\<close>.
\<close>

definition timer_cancel :: "curl_multi_asio \<Rightarrow> curl_multi_asio" where
  "timer_cancel s =
     s\<lparr>m_strand := m_strand s @ map (\<lambda>h. h Operation_aborted) (waits (m_timer s)),
       m_timer := (m_timer s)\<lparr>waits := []\<rparr>\<rparr>"

definition timer_expires_from_now :: "int \<Rightarrow> curl_multi_asio \<Rightarrow> curl_multi_asio" where
  "timer_expires_from_now ms s =
     s\<lparr>m_strand := m_strand s @ map (\<lambda>h. h Operation_aborted) (waits (m_timer s)),
       m_timer := (m_timer s)\<lparr>expiry := Some ms, waits := []\<rparr>\<rparr>"

definition timer_async_wait :: "(error_code \<Rightarrow> task) \<Rightarrow> curl_multi_asio \<Rightarrow> curl_multi_asio" where
  "timer_async_wait h s = s\<lparr>m_timer := (m_timer s)\<lparr>waits := waits (m_timer s) @ [h]\<rparr>\<rparr>"

definition strand_post :: "task \<Rightarrow> curl_multi_asio \<Rightarrow> curl_multi_asio" where
  "strand_post t s = s\<lparr>m_strand := m_strand s @ [t]\<rparr>"

definition timer_expires :: "curl_multi_asio \<Rightarrow> curl_multi_asio" where
  "timer_expires s =
     s\<lparr>m_strand := m_strand s @ map (\<lambda>h. h Success) (waits (m_timer s)),
       m_timer := (m_timer s)\<lparr>waits := []\<rparr>\<rparr>"

text \<open>\<^verbatim>\<open>curl_multi_asio::static_timer_callback\<close>; it returns 0.\<close>

definition static_timer_callback :: "int \<Rightarrow> curl_multi_asio \<Rightarrow> int \<times> curl_multi_asio" where
  "static_timer_callback timeout_ms s =
     (let s1 = timer_cancel s in
      if timeout_ms > 0
      then (0, timer_async_wait Timer_callback (timer_expires_from_now timeout_ms s1))
      else (0, strand_post (Timer_callback Success) s1))"

definition CURL_SOCKET_BAD :: int where "CURL_SOCKET_BAD = - 1"
definition CURL_SOCKET_TIMEOUT :: int where "CURL_SOCKET_TIMEOUT = CURL_SOCKET_BAD"

text \<open>
  \<^verbatim>\<open>curl_multi_asio::static_socket_callback\<close>; it returns 0. Looking the socket up
  with \<^verbatim>\<open>operator[]\<close> puts an entry with an empty pointer into the table when the
  table has none for the socket. What the function then writes to the standard
  output is not modelled.
\<close>

definition static_socket_callback :: "int \<Rightarrow> int \<Rightarrow> curl_multi_asio \<Rightarrow> int \<times> curl_multi_asio" where
  "static_socket_callback socket_fd action s =
     (case m_socket_map s socket_fd of
        None \<Rightarrow> (0, s\<lparr>m_socket_map := (m_socket_map s)(socket_fd \<mapsto> None)\<rparr>)
      | Some socket \<Rightarrow> (0, s))"

text \<open>
  \<^verbatim>\<open>curl_multi_asio::open_socket_callback\<close>. The socket is made by the reactor, whose
  constructor opens it: \<open>os\<close> is the answer of the operating system, the descriptor
  of the new socket, or \<open>None\<close> when it cannot open one, and then the constructor
  throws. A descriptor is a natural number, so it is never the bad-socket value.
  \<^verbatim>\<open>CURLSOCKTYPE_IPCXN\<close> and the address families are constants of the engine's and
  the system's headers.
\<close>

datatype curlsocktype = CURLSOCKTYPE_IPCXN | CURLSOCKTYPE_ACCEPT | CURLSOCKTYPE_LAST

definition AF_INET :: int where "AF_INET = 2"
definition AF_INET6 :: int where "AF_INET6 = 10"

definition open_socket_callback ::
  "curlsocktype \<Rightarrow> int \<Rightarrow> nat option \<Rightarrow> curl_multi_asio \<Rightarrow> (int, curl_multi_asio) outcome" where
  "open_socket_callback purpose family os s =
     (if purpose = CURLSOCKTYPE_IPCXN \<and> (family = AF_INET \<or> family = AF_INET6)
      then
        (case os of
           None \<Rightarrow> (Inl System_error, s)
         | Some fd \<Rightarrow>
             (let tcp_socket = \<lparr>native_handle = int fd,
                                 socket_protocol = (if family = AF_INET then Tcp_v4 else Tcp_v6)\<rparr>;
                  socket_fd = native_handle tcp_socket
              in (Inr socket_fd,
                  s\<lparr>m_socket_map := (m_socket_map s)(socket_fd \<mapsto> Some tcp_socket)\<rparr>)))
      else (Inr CURL_SOCKET_BAD, s))"

text \<open>\<^verbatim>\<open>curl_multi_asio::close_socket_callback\<close>.\<close>

definition close_socket_callback :: "int \<Rightarrow> curl_multi_asio \<Rightarrow> int \<times> curl_multi_asio" where
  "close_socket_callback socket_fd s = (0, s\<lparr>m_socket_map := (m_socket_map s)(socket_fd := None)\<rparr>)"

text \<open>
  The calls the engine makes during an addition or a removal, run on the adapter in
  their order.
\<close>

fun run_callbacks :: "engine_callback list \<Rightarrow> curl_multi_asio \<Rightarrow> curl_multi_asio" where
  "run_callbacks [] s = s"
| "run_callbacks (Timer_function timeout_ms # cbs) s =
     run_callbacks cbs (snd (static_timer_callback timeout_ms s))"
| "run_callbacks (Socket_function socket_fd action # cbs) s =
     run_callbacks cbs (snd (static_socket_callback socket_fd action s))"
| "run_callbacks (Closesocket_function socket_fd # cbs) s =
     run_callbacks cbs (snd (close_socket_callback socket_fd s))"

section \<open>Associations\<close>

text \<open>
  The constructor and the destructor of \<^verbatim>\<open>curl_multi::curl_association\<close>. The
  engine's calls back into the adapter run inside the engine call. An error thrown
  by the destructor ends the operation that destroyed the association.
\<close>

definition curl_association_ctor :: "curl \<Rightarrow> curl_multi_asio \<Rightarrow> (curl_association, curl_multi_asio) outcome" where
  "curl_association_ctor c s =
     (case curl_multi_add_handle (m_curlm s) (raw c) of
        ((rc, cbs), m) \<Rightarrow>
          (let s1 = run_callbacks cbs (s\<lparr>m_curlm := m\<rparr>)
           in case throw_if_curlm_error rc of
                Inl e \<Rightarrow> (Inl e, s1)
              | Inr _ \<Rightarrow> (Inr (Curl_association c), s1)))"

definition curl_association_dtor :: "curl_association \<Rightarrow> curl_multi_asio \<Rightarrow> (unit, curl_multi_asio) outcome" where
  "curl_association_dtor a s =
     (case curl_multi_remove_handle (m_curlm s) (raw (get_curl a)) of
        ((rc, cbs), m) \<Rightarrow>
          (throw_if_curlm_error rc, run_callbacks cbs (s\<lparr>m_curlm := m\<rparr>)))"

text \<open>
  \<^verbatim>\<open>curl_multi::add_handle\<close>. The new association is constructed first; storing it
  under a key that is present destroys the association that was there.
\<close>

definition multi_add_handle :: "curl option \<Rightarrow> curl_multi_asio \<Rightarrow> (unit, curl_multi_asio) outcome" where
  "multi_add_handle handle s =
     (case handle of
        None \<Rightarrow> (Inl Null_dereference, s)
      | Some c \<Rightarrow>
          and_then (curl_association_ctor c)
            (\<lambda>a s1.
               (case map_of (m_associations s1) (raw c) of
                  None \<Rightarrow>
                    (Inr (), s1\<lparr>m_associations := AList.update (raw c) a (m_associations s1)\<rparr>)
                | Some old \<Rightarrow>
                    curl_association_dtor old
                      (s1\<lparr>m_associations := AList.update (raw c) a (m_associations s1)\<rparr>))) s)"

text \<open>\<^verbatim>\<open>curl_multi::remove_handle\<close>.\<close>

definition multi_remove_handle :: "CURL \<Rightarrow> curl_multi_asio \<Rightarrow> (curl option, curl_multi_asio) outcome" where
  "multi_remove_handle easy s =
     (case map_of (m_associations s) easy of
        None \<Rightarrow> (Inr None, s)
      | Some a \<Rightarrow>
          and_then (curl_association_dtor a)
            (\<lambda>_ s1. (Inr (Some (get_curl a)), s1))
            (s\<lparr>m_associations := AList.delete easy (m_associations s)\<rparr>))"

text \<open>\<^verbatim>\<open>curl_multi::clear\<close>: every association is destroyed, then the map is empty.\<close>

fun destroy_all :: "curl_association list \<Rightarrow> curl_multi_asio \<Rightarrow> (unit, curl_multi_asio) outcome" where
  "destroy_all [] s = (Inr (), s)"
| "destroy_all (a # as) s = and_then (curl_association_dtor a) (\<lambda>_. destroy_all as) s"

definition multi_clear :: "curl_multi_asio \<Rightarrow> (unit, curl_multi_asio) outcome" where
  "multi_clear s =
     and_then (destroy_all (map snd (m_associations s)))
       (\<lambda>_ s1. (Inr (), s1\<lparr>m_associations := []\<rparr>)) s"

text \<open>\<^verbatim>\<open>curl_multi::socket_action\<close> and \<^verbatim>\<open>curl_multi::info_read\<close>.\<close>

definition socket_action :: "int \<Rightarrow> int \<Rightarrow> curl_multi_asio \<Rightarrow> (unit, curl_multi_asio) outcome" where
  "socket_action sockfd ev_bitmask s =
     (case curl_multi_socket_action (m_curlm s) sockfd ev_bitmask of
        (rc, m) \<Rightarrow> (throw_if_curlm_error rc, s\<lparr>m_curlm := m\<rparr>))"

definition info_read :: "curl_multi_asio \<Rightarrow> CURLMsg option \<times> curl_multi_asio" where
  "info_read s =
     (case curl_multi_info_read (m_curlm s) of
        (r, m) \<Rightarrow> (r, s\<lparr>m_curlm := m\<rparr>))"

text \<open>\<^verbatim>\<open>curl_multi_asio::add_handle\<close>.\<close>

definition add_handle :: "curl option \<Rightarrow> callback \<Rightarrow> curl_multi_asio \<Rightarrow> (unit, curl_multi_asio) outcome" where
  "add_handle handle handler =
     and_then (set_option handle CURLOPT_OPENSOCKETFUNCTION Open_socket_callback) (\<lambda>_.
     and_then (set_option handle CURLOPT_OPENSOCKETDATA This) (\<lambda>_.
     and_then (set_option handle CURLOPT_CLOSESOCKETFUNCTION Close_socket_callback) (\<lambda>_.
     and_then (set_option handle CURLOPT_CLOSESOCKETDATA This) (\<lambda>_.
     and_then (multi_add_handle handle) (\<lambda>_ s.
       (Inr (), s\<lparr>m_handler_map := (m_handler_map s)(handle \<mapsto> handler)\<rparr>))))))"

text \<open>\<^verbatim>\<open>curl_multi_asio::post_handle\<close>.\<close>

definition post_handle :: "curl option \<Rightarrow> callback \<Rightarrow> curl_multi_asio \<Rightarrow> curl_multi_asio" where
  "post_handle handle handler s = s\<lparr>m_strand := m_strand s @ [Add_handle handle handler]\<rparr>"

text \<open>\<^verbatim>\<open>curl_multi_asio::remove_handle\<close>.\<close>

definition remove_handle :: "CURL \<Rightarrow> curl_multi_asio \<Rightarrow> (curl option, curl_multi_asio) outcome" where
  "remove_handle easy =
     and_then (multi_remove_handle easy) (\<lambda>result.
     and_then (\<lambda>s. (Inr (), s\<lparr>m_handler_map := (m_handler_map s)(result := None)\<rparr>)) (\<lambda>_.
     and_then (set_option result CURLOPT_CLOSESOCKETDATA Nullptr) (\<lambda>_.
     and_then (set_option result CURLOPT_CLOSESOCKETFUNCTION Nullptr) (\<lambda>_.
     and_then (set_option result CURLOPT_OPENSOCKETDATA Nullptr) (\<lambda>_.
     and_then (set_option result CURLOPT_OPENSOCKETFUNCTION Nullptr) (\<lambda>_ s.
       (Inr result, s)))))))"

text \<open>\<^verbatim>\<open>curl_multi_asio::clear\<close>.\<close>

definition clear :: "curl_multi_asio \<Rightarrow> (unit, curl_multi_asio) outcome" where
  "clear =
     and_then multi_clear (\<lambda>_ s.
       (Inr (), s\<lparr>m_handler_map := Map.empty, m_socket_map := Map.empty\<rparr>))"

text \<open>
  \<^verbatim>\<open>curl_multi_asio::async_clear\<close> posts its body to the strand; \<open>async_clear_body\<close> is
  that body, run when the strand reaches it.
\<close>

definition async_clear :: "callback \<Rightarrow> curl_multi_asio \<Rightarrow> curl_multi_asio" where
  "async_clear handler s = s\<lparr>m_strand := m_strand s @ [Clear handler]\<rparr>"

definition async_clear_body :: "callback \<Rightarrow> curl_multi_asio \<Rightarrow> (unit, curl_multi_asio) outcome" where
  "async_clear_body handler =
     and_then clear (\<lambda>_ s.
       (if handler \<noteq> Empty_function
        then (Inr (), s\<lparr>invoked := invoked s @ [(handler, None)]\<rparr>)
        else (Inr (), s)))"

text \<open>
  \<^verbatim>\<open>curl_multi_asio::check_info\<close>. \<open>check_info_message\<close> is the body of its loop for
  one message; the call of \<^verbatim>\<open>remove_handle\<close> in it is the adapter's own.
\<close>

definition check_info_message :: "CURLMsg \<Rightarrow> curl_multi_asio \<Rightarrow> (unit, curl_multi_asio) outcome" where
  "check_info_message m =
     (if msg m = CURLMSG_DONE
      then
        and_then (remove_handle (easy_handle m)) (\<lambda>found s.
          (case m_handler_map s found of
             None \<Rightarrow> (Inr (), s)
           | Some handler \<Rightarrow>
               (Inr (),
                (if handler \<noteq> Empty_function
                 then s\<lparr>m_io_service := m_io_service s @ [Invoke handler Success]\<rparr>
                 else s)\<lparr>m_handler_map := (m_handler_map s)(found := None)\<rparr>)))
      else (\<lambda>s. (Inr (), s)))"

text \<open>
  The engine's calls touch the socket table, the timer and the strand, and nothing
  else of the adapter.
\<close>

lemma run_callbacks_frame [simp]:
  "m_curlm (run_callbacks cbs s) = m_curlm s"
  "options (run_callbacks cbs s) = options s"
  "m_associations (run_callbacks cbs s) = m_associations s"
  "m_handler_map (run_callbacks cbs s) = m_handler_map s"
  "m_io_service (run_callbacks cbs s) = m_io_service s"
  "invoked (run_callbacks cbs s) = invoked s"
  by (induction cbs s rule: run_callbacks.induct)
    (simp_all add: static_timer_callback_def Let_def timer_cancel_def timer_expires_from_now_def
      timer_async_wait_def strand_post_def static_socket_callback_def close_socket_callback_def
      split: option.splits)

lemma and_then_keeps:
  assumes "\<And>s. Q (snd (f s)) = Q s" and "\<And>x s. Q (snd (g x s)) = Q s"
  shows "Q (snd (and_then f g s)) = Q s"
proof (cases "f s")
  case (Pair r s1)
  have "Q s1 = Q s" using assms(1) [of s] Pair by simp
  then show ?thesis
    using assms(2) Pair by (cases r) (simp_all add: and_then_def)
qed

lemma set_option_msg_queue:
  "msg_queue (m_curlm (snd (set_option h opt v s))) = msg_queue (m_curlm s)"
  by (simp add: set_option_def curl_easy_setopt_def split: option.splits)

lemma curl_association_dtor_msg_queue:
  "msg_queue (m_curlm (snd (curl_association_dtor a s))) = msg_queue (m_curlm s)"
  by (simp add: curl_association_dtor_def curl_multi_remove_handle_def)

lemma multi_remove_handle_msg_queue:
  "msg_queue (m_curlm (snd (multi_remove_handle easy s))) = msg_queue (m_curlm s)"
proof (cases "map_of (m_associations s) easy")
  case None
  then show ?thesis by (simp add: multi_remove_handle_def)
next
  case (Some a)
  have "msg_queue (m_curlm (snd (and_then (curl_association_dtor a)
          (\<lambda>_ s1. (Inr (Some (get_curl a)), s1)) t))) = msg_queue (m_curlm t)" for t
    by (rule and_then_keeps) (simp_all add: curl_association_dtor_msg_queue)
  then show ?thesis using Some by (simp add: multi_remove_handle_def)
qed

lemma remove_handle_msg_queue:
  "msg_queue (m_curlm (snd (remove_handle easy s))) = msg_queue (m_curlm s)"
  unfolding remove_handle_def
  by (intro and_then_keeps) (simp_all add: multi_remove_handle_msg_queue set_option_msg_queue)

lemma check_info_message_msg_queue:
  "msg_queue (m_curlm (snd (check_info_message m s))) = msg_queue (m_curlm s)"
proof (cases "msg m = CURLMSG_DONE")
  case True
  have "msg_queue (m_curlm (snd (and_then (remove_handle (easy_handle m)) (\<lambda>found s.
          (case m_handler_map s found of
             None \<Rightarrow> (Inr (), s)
           | Some handler \<Rightarrow>
               (Inr (),
                (if handler \<noteq> Empty_function
                 then s\<lparr>m_io_service := m_io_service s @ [Invoke handler Success]\<rparr>
                 else s)\<lparr>m_handler_map := (m_handler_map s)(found := None)\<rparr>))) s)))
        = msg_queue (m_curlm s)"
    by (rule and_then_keeps) (simp_all add: remove_handle_msg_queue split: option.splits)
  then show ?thesis using True by (simp add: check_info_message_def)
next
  case False
  then show ?thesis by (simp add: check_info_message_def)
qed

lemma info_read_shrinks:
  "info_read s = (Some m, s1) \<Longrightarrow> length (msg_queue (m_curlm s1)) < length (msg_queue (m_curlm s))"
  by (auto simp: info_read_def curl_multi_info_read_def split: list.splits)

function check_info :: "curl_multi_asio \<Rightarrow> (unit, curl_multi_asio) outcome" where
  "check_info s =
     (case info_read s of
        (None, s1) \<Rightarrow> (Inr (), s1)
      | (Some m, s1) \<Rightarrow>
          (case check_info_message m s1 of
             (Inl e, s2) \<Rightarrow> (Inl e, s2)
           | (Inr _, s2) \<Rightarrow> check_info s2))"
  by pat_completeness auto
termination
proof (relation "measure (\<lambda>s. length (msg_queue (m_curlm s)))")
  show "wf (measure (\<lambda>s. length (msg_queue (m_curlm s))))" by simp
next
  fix s :: curl_multi_asio and x1 s1 m r s2 u
  assume a: "(x1, s1) = info_read s" "x1 = Some m" and b: "(r, s2) = check_info_message m s1"
  have "length (msg_queue (m_curlm s1)) < length (msg_queue (m_curlm s))"
    using a info_read_shrinks [of s m s1] by simp
  moreover have "msg_queue (m_curlm s2) = msg_queue (m_curlm s1)"
    using check_info_message_msg_queue [of m s1] b [symmetric] by simp
  ultimately show "(s2, s) \<in> measure (\<lambda>s. length (msg_queue (m_curlm s)))" by simp
qed

declare check_info.simps [simp del]

section \<open>The progress call and the reactor's turn\<close>

text \<open>\<^verbatim>\<open>curl_multi_asio::timer_callback\<close>.\<close>

definition timer_callback :: "error_code \<Rightarrow> curl_multi_asio \<Rightarrow> (unit, curl_multi_asio) outcome" where
  "timer_callback ec =
     (if ec = Success
      then and_then (socket_action CURL_SOCKET_TIMEOUT 0) (\<lambda>_. check_info)
      else (\<lambda>s. (Inr (), s)))"

text \<open>What the reactor does with a task when its turn comes.\<close>

definition run_task :: "task \<Rightarrow> curl_multi_asio \<Rightarrow> (unit, curl_multi_asio) outcome" where
  "run_task t =
     (case t of
        Timer_callback ec \<Rightarrow> timer_callback ec
      | Add_handle handle handler \<Rightarrow> add_handle handle handler
      | Clear handler \<Rightarrow> async_clear_body handler
      | Invoke handler ec \<Rightarrow> (\<lambda>s. (Inr (), s\<lparr>invoked := invoked s @ [(handler, Some ec)]\<rparr>)))"

text \<open>
  The adapter as its constructor leaves it: nothing tracked, nothing queued, every
  option of every transfer unset, the timer idle; the engine has no call planned.
  \<open>started\<close> is the same adapter with an engine that has the plan \<open>cbs\<close>.
\<close>

definition initial :: curl_multi_asio where
  "initial =
     \<lparr>m_curlm = \<lparr>easy_handles = {}, msg_queue = [], socket_actions = [], callbacks = []\<rparr>,
      options = (\<lambda>_ _. Nullptr),
      m_associations = [],
      m_handler_map = Map.empty,
      m_socket_map = Map.empty,
      m_timer = \<lparr>expiry = None, waits = []\<rparr>,
      m_strand = [],
      m_io_service = [],
      invoked = []\<rparr>"

definition started :: "engine_callback list list \<Rightarrow> curl_multi_asio" where
  "started cbs = initial\<lparr>m_curlm := (m_curlm initial)\<lparr>callbacks := cbs\<rparr>\<rparr>"

text \<open>The transfer and the callbacks of the scenarios below.\<close>

definition H1 :: curl where "H1 = Curl 4096"
definition C1 :: callback where "C1 = Callback 1"
definition C2 :: callback where "C2 = Callback 2"

text \<open>The socket hooks of a transfer are the adapter's.\<close>

definition hooks_installed :: "CURL \<Rightarrow> easy_options \<Rightarrow> bool" where
  "hooks_installed e opts =
     (opts e CURLOPT_OPENSOCKETFUNCTION = Open_socket_callback \<and>
      opts e CURLOPT_OPENSOCKETDATA = This \<and>
      opts e CURLOPT_CLOSESOCKETFUNCTION = Close_socket_callback \<and>
      opts e CURLOPT_CLOSESOCKETDATA = This)"

section \<open>The outcome accessors of a transfer\<close>















section \<open>The header list\<close>

text \<open>
  \<^verbatim>\<open>curl_list\<close> keeps a chain of the engine's list nodes. The nodes live in the
  engine's memory: a store from addresses to nodes, with an allocator that hands out
  an address it has not handed out before, or fails when it has no room left, and
  that removes a node from the store when the node is freed. A pointer is an address,
  or \<open>None\<close> for the null pointer. A read or a free of an address that holds no node is
  the value \<open>Dangling_pointer\<close>.
\<close>

type_synonym addr = nat

record curl_slist =
  slist_data :: string
  slist_next :: "addr option"

record heap =
  cells :: "addr \<rightharpoonup> curl_slist"
  brk :: addr
  room :: nat

definition malloc_node :: "curl_slist \<Rightarrow> heap \<Rightarrow> addr option \<times> heap" where
  "malloc_node item h =
     (if room h = 0 then (None, h)
      else (Some (brk h),
            h\<lparr>cells := (cells h)(brk h \<mapsto> item), brk := Suc (brk h), room := room h - 1\<rparr>))"

definition free_node :: "addr \<Rightarrow> heap \<Rightarrow> heap" where
  "free_node a h = h\<lparr>cells := (cells h)(a := None), room := Suc (room h)\<rparr>"

text \<open>
  The engine's calls, after its documented contract. \<^verbatim>\<open>curl_slist_append\<close> allocates
  a node for the string and links it behind the last node of the list it is given;
  it returns the head of the list, which is the new node when the list was null and
  the head it was given otherwise, or the null pointer when it cannot allocate, in
  which case the list is untouched. \<^verbatim>\<open>curl_slist_free_all\<close> frees every node of a
  chain. Both follow the chain node by node, so both are partial: on a chain that runs
  in a circle they do not return.
\<close>

partial_function (option) slist_get_last :: "heap \<Rightarrow> addr \<Rightarrow> (error + addr) option" where
  "slist_get_last h a =
     (case cells h a of
        None \<Rightarrow> Some (Inl Dangling_pointer)
      | Some item \<Rightarrow>
          (case slist_next item of
             None \<Rightarrow> Some (Inr a)
           | Some b \<Rightarrow> slist_get_last h b))"

declare slist_get_last.simps [code]

definition curl_slist_append ::
  "addr option \<Rightarrow> string \<Rightarrow> heap \<Rightarrow> ((addr option, heap) outcome) option" where
  "curl_slist_append list v h =
     (case malloc_node \<lparr>slist_data = v, slist_next = None\<rparr> h of
        (None, h1) \<Rightarrow> Some (Inr None, h1)
      | (Some new_item, h1) \<Rightarrow>
          (case list of
             None \<Rightarrow> Some (Inr (Some new_item), h1)
           | Some a \<Rightarrow>
               (case slist_get_last h1 a of
                  None \<Rightarrow> None
                | Some (Inl e) \<Rightarrow> Some (Inl e, h1)
                | Some (Inr last_item) \<Rightarrow>
                    (case cells h1 last_item of
                       None \<Rightarrow> Some (Inl Dangling_pointer, h1)
                     | Some item \<Rightarrow>
                         Some (Inr list,
                               h1\<lparr>cells := (cells h1)(last_item \<mapsto> item\<lparr>slist_next := Some new_item\<rparr>)\<rparr>)))))"

partial_function (option) curl_slist_free_all ::
  "addr option \<Rightarrow> heap \<Rightarrow> ((unit, heap) outcome) option" where
  "curl_slist_free_all list h =
     (case list of
        None \<Rightarrow> Some (Inr (), h)
      | Some a \<Rightarrow>
          (case cells h a of
             None \<Rightarrow> Some (Inl Dangling_pointer, h)
           | Some item \<Rightarrow> curl_slist_free_all (slist_next item) (free_node a h)))"

declare curl_slist_free_all.simps [code]

text \<open>
  Reading the list from a pointer, as the engine does with the pointer it is given
  for the header option: the strings of the chain, in order.
\<close>

partial_function (option) slist_walk ::
  "heap \<Rightarrow> addr option \<Rightarrow> string list \<Rightarrow> (error + string list) option" where
  "slist_walk h p acc =
     (case p of
        None \<Rightarrow> Some (Inr acc)
      | Some a \<Rightarrow>
          (case cells h a of
             None \<Rightarrow> Some (Inl Dangling_pointer)
           | Some item \<Rightarrow> slist_walk h (slist_next item) (acc @ [slist_data item])))"

declare slist_walk.simps [code]

definition traversal :: "heap \<Rightarrow> addr option \<Rightarrow> (error + string list) option" where
  "traversal h p = slist_walk h p []"

text \<open>
  Modelled from the spec: the declaration of \<^verbatim>\<open>m_slist\<close> is in \<^verbatim>\<open>curl.hpp\<close>, which
  is not among the sources. The spec calls the list an ownership chain whose reset
  releases the old chain by ownership transfer, and the constructor gives the member
  the null pointer and a deleter that calls \<^verbatim>\<open>curl_slist_free_all\<close>: the member is an
  owning pointer with that deleter. Its \<^verbatim>\<open>reset(p)\<close> stores \<open>p\<close> and then hands the
  pointer it held before, when that is not null, to the deleter; the two pointers
  are not compared. The owning pointers of the standard library and of Boost both
  release the pointer they held when \<^verbatim>\<open>reset\<close> is given one.
\<close>

record curl_list =
  m_slist :: "addr option"

definition unique_ptr_reset ::
  "addr option \<Rightarrow> curl_list \<times> heap \<Rightarrow> ((unit, curl_list \<times> heap) outcome) option" where
  "unique_ptr_reset p lh =
     (case lh of (l, h) \<Rightarrow>
        (let old_p = m_slist l; l1 = l\<lparr>m_slist := p\<rparr>
         in case old_p of
              None \<Rightarrow> Some (Inr (), (l1, h))
            | Some _ \<Rightarrow>
                (case curl_slist_free_all old_p h of
                   None \<Rightarrow> None
                 | Some (r, h1) \<Rightarrow> Some (r, (l1, h1)))))"

text \<open>
  \<^verbatim>\<open>curl_list::curl_list\<close>, \<^verbatim>\<open>curl_list::append\<close>, \<^verbatim>\<open>curl_list::reset\<close> and
  \<^verbatim>\<open>curl_list::raw\<close>. \<^verbatim>\<open>curl::reset_http_headers\<close> assigns a newly constructed list
  to its member, which releases the chain as \<^verbatim>\<open>reset\<close> does.
\<close>

definition curl_list_ctor :: curl_list where
  "curl_list_ctor = \<lparr>m_slist = None\<rparr>"

definition curl_list_append ::
  "string \<Rightarrow> curl_list \<times> heap \<Rightarrow> ((unit, curl_list \<times> heap) outcome) option" where
  "curl_list_append v lh =
     (case lh of (l, h) \<Rightarrow>
        (case curl_slist_append (m_slist l) v h of
           None \<Rightarrow> None
         | Some (Inl e, h1) \<Rightarrow> Some (Inl e, (l, h1))
         | Some (Inr new_slist, h1) \<Rightarrow>
             (if new_slist = None then Some (Inl Runtime_error_append, (l, h1))
              else unique_ptr_reset new_slist (l, h1))))"

definition curl_list_reset ::
  "curl_list \<times> heap \<Rightarrow> ((unit, curl_list \<times> heap) outcome) option" where
  "curl_list_reset lh = unique_ptr_reset None lh"

definition curl_list_raw :: "curl_list \<Rightarrow> addr option" where
  "curl_list_raw l = m_slist l"

text \<open>A sequence of \<^verbatim>\<open>append\<close> calls; it stops at the first that does not succeed.\<close>

fun append_all ::
  "string list \<Rightarrow> curl_list \<times> heap \<Rightarrow> ((unit, curl_list \<times> heap) outcome) option" where
  "append_all [] lh = Some (Inr (), lh)"
| "append_all (v # vs) lh =
     (case curl_list_append v lh of
        None \<Rightarrow> None
      | Some (Inl e, lh1) \<Rightarrow> Some (Inl e, lh1)
      | Some (Inr _, lh1) \<Rightarrow> append_all vs lh1)"

text \<open>A store with no node and room for eight.\<close>

definition empty_heap :: heap where
  "empty_heap = \<lparr>cells = Map.empty, brk = 0, room = 8\<rparr>"

text \<open>
  The header list after \<^verbatim>\<open>append("Accept: text/html")\<close> on a newly constructed list
  in the store \<open>empty_heap\<close>.
\<close>

definition after_first_append :: "curl_list \<times> heap" where
  "after_first_append =
     (\<lparr>m_slist = Some 0\<rparr>,
      \<lparr>cells = [0 \<mapsto> \<lparr>slist_data = ''Accept: text/html'', slist_next = None\<rparr>],
        brk = 1, room = 7\<rparr>)"

section \<open>Facts about the adapter\<close>

lemma and_then_Inr: "f s = (Inr x, s1) \<Longrightarrow> and_then f g s = g x s1"
  by (simp add: and_then_def)

lemma and_then_Inl: "f s = (Inl e, s1) \<Longrightarrow> and_then f g s = (Inl e, s1)"
  by (simp add: and_then_def)

lemma set_option_Some:
  "set_option (Some c) opt v s =
     (Inr (), s\<lparr>options := (options s)(raw c := (options s (raw c))(opt := v))\<rparr>)"
  by (simp add: set_option_def curl_easy_setopt_def throw_if_curl_error_def)

lemma set_option_None: "set_option None opt v s = (Inl Null_dereference, s)"
  by (simp add: set_option_def)

lemma set_option_same:
  assumes "options s (raw c) opt = v"
  shows "set_option (Some c) opt v s = (Inr (), s)"
proof -
  have "(options s (raw c))(opt := v) = options s (raw c)"
    using assms by (simp add: fun_upd_idem)
  then have "(options s)(raw c := (options s (raw c))(opt := v)) = options s"
    by simp
  then show ?thesis by (simp add: set_option_Some)
qed

lemma check_info_Nil:
  "msg_queue (m_curlm s) = [] \<Longrightarrow> check_info s = (Inr (), s)"
  by (simp add: check_info.simps info_read_def curl_multi_info_read_def)

lemma check_info_Cons:
  "msg_queue (m_curlm s) = m # ms \<Longrightarrow>
   check_info s =
     (case check_info_message m (s\<lparr>m_curlm := (m_curlm s)\<lparr>msg_queue := ms\<rparr>\<rparr>) of
        (Inl e, s2) \<Rightarrow> (Inl e, s2)
      | (Inr _, s2) \<Rightarrow> check_info s2)"
  by (subst check_info.simps) (simp add: info_read_def curl_multi_info_read_def)

subsection \<open>Removal\<close>

text \<open>
  \<^verbatim>\<open>curl_multi::remove_handle\<close> tolerates a pointer it does not know: it returns the
  empty pointer and changes nothing.
\<close>

lemma multi_remove_handle_unknown:
  "map_of (m_associations s) easy = None \<Longrightarrow> multi_remove_handle easy s = (Inr None, s)"
  by (simp add: multi_remove_handle_def)

text \<open>
  \<^verbatim>\<open>curl_multi_asio::remove_handle\<close> does not: it goes on to erase the empty pointer
  from the handler map and to call \<^verbatim>\<open>set_option\<close> through it.
\<close>

lemma remove_handle_unknown:
  "map_of (m_associations s) easy = None \<Longrightarrow>
   remove_handle easy s =
     (Inl Null_dereference, s\<lparr>m_handler_map := (m_handler_map s)(None := None)\<rparr>)"
  by (simp add: remove_handle_def multi_remove_handle_unknown and_then_def set_option_None)

text \<open>
  When \<^verbatim>\<open>curl_multi_asio::remove_handle\<close> returns a transfer, the handler map has no
  entry for it any more.
\<close>

lemma remove_handle_erases:
  "remove_handle easy s = (Inr found, s') \<Longrightarrow> m_handler_map s' found = None"
  by (auto simp: remove_handle_def multi_remove_handle_def and_then_def set_option_def
      curl_easy_setopt_def throw_if_curl_error_def curl_association_dtor_def
      curl_multi_remove_handle_def throw_if_curlm_error_def CURLM_OK_def CURLE_OK_def
      split: option.splits if_splits)

lemma set_option_io: "m_io_service (snd (set_option h opt v s)) = m_io_service s"
  by (simp add: set_option_def curl_easy_setopt_def split: option.splits)

lemma multi_remove_handle_io:
  "m_io_service (snd (multi_remove_handle easy s)) = m_io_service s"
  by (simp add: multi_remove_handle_def and_then_def curl_association_dtor_def
      curl_multi_remove_handle_def throw_if_curlm_error_def split: option.splits)

lemma remove_handle_io: "m_io_service (snd (remove_handle easy s)) = m_io_service s"
  unfolding remove_handle_def
  by (intro and_then_keeps) (simp_all add: multi_remove_handle_io set_option_io)

subsection \<open>The completion drain never schedules a callback\<close>

lemma check_info_message_io:
  "m_io_service (snd (check_info_message m s)) = m_io_service s"
proof (cases "msg m = CURLMSG_DONE")
  case False
  then show ?thesis by (simp add: check_info_message_def)
next
  case True
  obtain r s1 where rs: "remove_handle (easy_handle m) s = (r, s1)"
    by (cases "remove_handle (easy_handle m) s")
  have io: "m_io_service s1 = m_io_service s"
    using remove_handle_io [of "easy_handle m" s] rs by simp
  show ?thesis
  proof (cases r)
    case (Inl e)
    then show ?thesis
      using True rs io by (simp add: check_info_message_def and_then_def)
  next
    case (Inr found)
    then have "m_handler_map s1 found = None"
      using rs remove_handle_erases by simp
    then show ?thesis
      using True rs io Inr by (simp add: check_info_message_def and_then_def)
  qed
qed

lemma check_info_io: "m_io_service (snd (check_info s)) = m_io_service s"
proof (induction s rule: check_info.induct)
  case (1 s)
  obtain x s1 where ir: "info_read s = (x, s1)" by (cases "info_read s")
  have s1: "m_io_service s1 = m_io_service s"
    using ir by (auto simp: info_read_def curl_multi_info_read_def split: list.splits)
  show ?case
  proof (cases x)
    case None
    then show ?thesis using ir s1 by (subst check_info.simps) simp
  next
    case (Some m)
    obtain r s2 where cm: "check_info_message m s1 = (r, s2)"
      by (cases "check_info_message m s1")
    have s2: "m_io_service s2 = m_io_service s1"
      using check_info_message_io [of m s1] cm by simp
    show ?thesis
    proof (cases r)
      case (Inl e)
      then show ?thesis using ir Some cm s1 s2 by (subst check_info.simps) simp
    next
      case (Inr u)
      have "m_io_service (snd (check_info s2)) = m_io_service s2"
        using "1.IH" [OF ir [symmetric] Some cm [symmetric] Inr] .
      then show ?thesis using ir Some cm s1 s2 Inr by (subst check_info.simps) simp
    qed
  qed
qed

subsection \<open>Adding a transfer that is registered\<close>

lemma add_handle_first:
  assumes "map_of (m_associations s) (raw h) = None"
    and "add_handle (Some h) c s = (Inr (), s1)"
  shows "raw h \<in> easy_handles (m_curlm s1) \<and> hooks_installed (raw h) (options s1)"
  using assms
  by (auto simp: add_handle_def and_then_def set_option_Some multi_add_handle_def
      curl_association_ctor_def curl_multi_add_handle_def throw_if_curlm_error_def
      hooks_installed_def CURLM_OK_def CURLM_ADDED_ALREADY_def split: if_splits)

lemma add_handle_registered:
  assumes "raw h \<in> easy_handles (m_curlm s)" and "hooks_installed (raw h) (options s)"
  shows "add_handle (Some h) c s = (Inl (Runtime_error_curlm CURLM_ADDED_ALREADY), s)"
  using assms
  by (simp add: add_handle_def and_then_def set_option_same multi_add_handle_def
      curl_association_ctor_def curl_multi_add_handle_def throw_if_curlm_error_def
      hooks_installed_def CURLM_OK_def CURLM_ADDED_ALREADY_def)

lemma started_Nil: "started [] = initial"
  by (simp add: started_def initial_def)

text \<open>The first addition of H1 when the engine plans no call.\<close>

lemma add_handle_initial:
  "add_handle (Some H1) C1 initial =
     (Inr (),
      initial\<lparr>options := (options initial)(raw H1 := (\<lambda>_. Nullptr)
                  (CURLOPT_OPENSOCKETFUNCTION := Open_socket_callback,
                   CURLOPT_OPENSOCKETDATA := This,
                   CURLOPT_CLOSESOCKETFUNCTION := Close_socket_callback,
                   CURLOPT_CLOSESOCKETDATA := This)),
              m_curlm := \<lparr>easy_handles = {raw H1}, msg_queue = [], socket_actions = [],
                          callbacks = []\<rparr>,
              m_associations := [(raw H1, Curl_association H1)],
              m_handler_map := [Some H1 \<mapsto> C1]\<rparr>)"
  by (simp add: add_handle_def and_then_def set_option_Some multi_add_handle_def
      curl_association_ctor_def curl_multi_add_handle_def throw_if_curlm_error_def
      due_callbacks_def initial_def CURLM_OK_def CURLM_ADDED_ALREADY_def)

text \<open>The same addition when the engine has a plan: the calls that are due run.\<close>

lemma add_handle_started:
  "add_handle (Some H1) C1 (started cbs) =
     (Inr (),
      (run_callbacks (case cbs of [] \<Rightarrow> [] | c # _ \<Rightarrow> c)
         (initial\<lparr>options := (options initial)(raw H1 := (\<lambda>_. Nullptr)
                     (CURLOPT_OPENSOCKETFUNCTION := Open_socket_callback,
                      CURLOPT_OPENSOCKETDATA := This,
                      CURLOPT_CLOSESOCKETFUNCTION := Close_socket_callback,
                      CURLOPT_CLOSESOCKETDATA := This)),
                 m_curlm := \<lparr>easy_handles = {raw H1}, msg_queue = [], socket_actions = [],
                             callbacks = tl cbs\<rparr>\<rparr>))
      \<lparr>m_associations := [(raw H1, Curl_association H1)],
        m_handler_map := [Some H1 \<mapsto> C1]\<rparr>)"
  by (simp add: add_handle_def and_then_def set_option_Some multi_add_handle_def
      curl_association_ctor_def curl_multi_add_handle_def throw_if_curlm_error_def
      due_callbacks_def started_def initial_def CURLM_OK_def CURLM_ADDED_ALREADY_def Let_def)

subsection \<open>Clearing\<close>

lemma run_callbacks_strand: "\<exists>ts. m_strand (run_callbacks cbs s) = m_strand s @ ts"
proof (induction cbs s rule: run_callbacks.induct)
  case (1 s)
  then show ?case by simp
next
  case (2 timeout_ms cbs s)
  obtain ts where ts: "m_strand (run_callbacks cbs (snd (static_timer_callback timeout_ms s))) =
      m_strand (snd (static_timer_callback timeout_ms s)) @ ts"
    using 2 by blast
  have "\<exists>us. m_strand (snd (static_timer_callback timeout_ms s)) = m_strand s @ us"
    by (simp add: static_timer_callback_def Let_def timer_cancel_def timer_expires_from_now_def
        timer_async_wait_def strand_post_def)
  then show ?case using ts by auto
next
  case (3 socket_fd action cbs s)
  then show ?case
    by (simp add: static_socket_callback_def split: option.splits)
next
  case (4 socket_fd cbs s)
  then show ?case by (simp add: close_socket_callback_def)
qed

lemma curl_association_dtor_ok:
  "\<exists>s'. curl_association_dtor a s = (Inr (), s') \<and>
        m_io_service s' = m_io_service s \<and> invoked s' = invoked s \<and>
        (\<exists>ts. m_strand s' = m_strand s @ ts)"
proof -
  have "\<exists>ts. m_strand (run_callbacks cbs (s\<lparr>m_curlm := m\<rparr>)) = m_strand s @ ts" for cbs m
    using run_callbacks_strand [of cbs "s\<lparr>m_curlm := m\<rparr>"] by simp
  then show ?thesis
    by (simp add: curl_association_dtor_def curl_multi_remove_handle_def throw_if_curlm_error_def)
qed

lemma destroy_all_ok:
  "\<exists>s'. destroy_all as s = (Inr (), s') \<and>
        m_io_service s' = m_io_service s \<and> invoked s' = invoked s \<and>
        (\<exists>ts. m_strand s' = m_strand s @ ts)"
proof (induction as arbitrary: s)
  case Nil
  then show ?case by simp
next
  case (Cons a as)
  obtain s1 ts1 where 1: "curl_association_dtor a s = (Inr (), s1)"
      "m_io_service s1 = m_io_service s" "invoked s1 = invoked s"
      "m_strand s1 = m_strand s @ ts1"
    using curl_association_dtor_ok [of a s] by blast
  obtain s2 ts2 where 2: "destroy_all as s1 = (Inr (), s2)"
      "m_io_service s2 = m_io_service s1" "invoked s2 = invoked s1"
      "m_strand s2 = m_strand s1 @ ts2"
    using Cons.IH [of s1] by blast
  have "destroy_all (a # as) s = (Inr (), s2)"
    using 1(1) 2(1) by (simp add: and_then_def)
  moreover have "m_strand s2 = m_strand s @ (ts1 @ ts2)"
    using 1(4) 2(4) by simp
  ultimately show ?case using 1(2,3) 2(2,3) by auto
qed

text \<open>
  \<^verbatim>\<open>clear\<close> returns normally, whatever the engine calls while the associations are
  destroyed; the state it leaves is the one after the destructors with the three
  tables emptied.
\<close>

lemma clear_eq:
  "\<exists>s'. destroy_all (map snd (m_associations s)) s = (Inr (), s') \<and>
        clear s = (Inr (), s'\<lparr>m_associations := [], m_handler_map := Map.empty,
                               m_socket_map := Map.empty\<rparr>) \<and>
        m_io_service s' = m_io_service s \<and> invoked s' = invoked s \<and>
        (\<exists>ts. m_strand s' = m_strand s @ ts)"
proof -
  obtain s' where d: "destroy_all (map snd (m_associations s)) s = (Inr (), s')"
      "m_io_service s' = m_io_service s" "invoked s' = invoked s"
      "\<exists>ts. m_strand s' = m_strand s @ ts"
    using destroy_all_ok [of "map snd (m_associations s)" s] by blast
  have "clear s = (Inr (), s'\<lparr>m_associations := [], m_handler_map := Map.empty,
                               m_socket_map := Map.empty\<rparr>)"
    using d(1) by (simp add: clear_def multi_clear_def and_then_def)
  then show ?thesis using d by blast
qed

subsection \<open>The timer callback\<close>

lemma static_timer_callback_nonpositive:
  "timeout_ms \<le> 0 \<Longrightarrow>
   static_timer_callback timeout_ms s =
     (0, s\<lparr>m_strand := m_strand s @ map (\<lambda>h. h Operation_aborted) (waits (m_timer s))
                        @ [Timer_callback Success],
            m_timer := (m_timer s)\<lparr>waits := []\<rparr>\<rparr>)"
  by (simp add: static_timer_callback_def timer_cancel_def strand_post_def)

lemma static_timer_callback_positive:
  "0 < timeout_ms \<Longrightarrow>
   static_timer_callback timeout_ms s =
     (0, s\<lparr>m_strand := m_strand s @ map (\<lambda>h. h Operation_aborted) (waits (m_timer s)),
            m_timer := (m_timer s)\<lparr>expiry := Some timeout_ms, waits := [Timer_callback]\<rparr>\<rparr>)"
  by (simp add: static_timer_callback_def timer_cancel_def timer_expires_from_now_def
      timer_async_wait_def)

subsection \<open>The accessors\<close>







subsection \<open>The header list\<close>

lemma slist_get_last_single:
  "cells h a = Some item \<Longrightarrow> slist_next item = None \<Longrightarrow> slist_get_last h a = Some (Inr a)"
  by (subst slist_get_last.simps) simp

lemma curl_slist_free_all_null: "curl_slist_free_all None h = Some (Inr (), h)"
  by (subst curl_slist_free_all.simps) simp

lemma curl_slist_free_all_node:
  "cells h a = Some item \<Longrightarrow>
   curl_slist_free_all (Some a) h = curl_slist_free_all (slist_next item) (free_node a h)"
  by (subst curl_slist_free_all.simps) simp

lemma curl_slist_free_all_dangling:
  "cells h a = None \<Longrightarrow> curl_slist_free_all (Some a) h = Some (Inl Dangling_pointer, h)"
  by (subst curl_slist_free_all.simps) simp

lemma traversal_null: "traversal h None = Some (Inr [])"
  unfolding traversal_def by (subst slist_walk.simps) simp

lemma traversal_dangling: "cells h a = None \<Longrightarrow> traversal h (Some a) = Some (Inl Dangling_pointer)"
  unfolding traversal_def by (subst slist_walk.simps) simp

lemma traversal_single:
  assumes "cells h a = Some item" and "slist_next item = None"
  shows "traversal h (Some a) = Some (Inr [slist_data item])"
proof -
  have "slist_walk h None [slist_data item] = Some (Inr [slist_data item])"
    by (subst slist_walk.simps) simp
  then show ?thesis
    unfolding traversal_def using assms by (subst slist_walk.simps) simp
qed

lemma curl_list_append_out_of_memory:
  "room h = 0 \<Longrightarrow> curl_list_append v (l, h) = Some (Inl Runtime_error_append, (l, h))"
  by (simp add: curl_list_append_def curl_slist_append_def malloc_node_def)

lemma curl_list_append_first:
  assumes "room h \<noteq> 0" and "m_slist l = None"
  shows "curl_list_append v (l, h) =
           Some (Inr (), (l\<lparr>m_slist := Some (brk h)\<rparr>,
                 h\<lparr>cells := (cells h)(brk h \<mapsto> \<lparr>slist_data = v, slist_next = None\<rparr>),
                   brk := Suc (brk h), room := room h - 1\<rparr>))"
  using assms
  by (simp add: curl_list_append_def curl_slist_append_def malloc_node_def unique_ptr_reset_def)

lemma curl_list_append_second:
  assumes "room h \<noteq> 0" and "m_slist l = Some a" and "cells h a = Some item"
    and "slist_next item = None" and "a \<noteq> brk h"
  shows "curl_list_append v (l, h) =
           Some (Inr (), (l,
                 h\<lparr>cells := (cells h)(a := None, brk h := None), brk := Suc (brk h),
                   room := Suc (room h)\<rparr>))"
proof -
  define h1 where "h1 = h\<lparr>cells := (cells h)(brk h \<mapsto> \<lparr>slist_data = v, slist_next = None\<rparr>),
                   brk := Suc (brk h), room := room h - 1\<rparr>"
  define h2 where "h2 = h1\<lparr>cells := (cells h1)(a \<mapsto> item\<lparr>slist_next := Some (brk h)\<rparr>)\<rparr>"
  have m: "malloc_node \<lparr>slist_data = v, slist_next = None\<rparr> h = (Some (brk h), h1)"
    using assms(1) by (simp add: malloc_node_def h1_def)
  have c1: "cells h1 a = Some item" using assms(3,5) by (simp add: h1_def)
  have last: "slist_get_last h1 a = Some (Inr a)"
    using c1 assms(4) by (rule slist_get_last_single)
  have app: "curl_slist_append (Some a) v h = Some (Inr (Some a), h2)"
    using m last c1 by (simp add: curl_slist_append_def h2_def)
  have f1: "curl_slist_free_all (Some a) h2 =
      curl_slist_free_all (Some (brk h)) (free_node a h2)"
    using curl_slist_free_all_node [of h2 a "item\<lparr>slist_next := Some (brk h)\<rparr>"]
    by (simp add: h2_def)
  have c2: "cells (free_node a h2) (brk h) = Some \<lparr>slist_data = v, slist_next = None\<rparr>"
    using assms(5) by (simp add: free_node_def h2_def h1_def)
  have f2: "curl_slist_free_all (Some (brk h)) (free_node a h2) =
      Some (Inr (), free_node (brk h) (free_node a h2))"
    using curl_slist_free_all_node [OF c2] by (simp add: curl_slist_free_all_null)
  have "free_node (brk h) (free_node a h2) =
      h\<lparr>cells := (cells h)(a := None, brk h := None), brk := Suc (brk h),
                   room := Suc (room h)\<rparr>"
    using assms(1,5) by (simp add: free_node_def h2_def h1_def fun_upd_twist)
  then show ?thesis
    using app f1 f2 assms(2) by (simp add: curl_list_append_def unique_ptr_reset_def)
qed


lemma slist_get_last_error:
  "slist_get_last h a = Some y \<Longrightarrow> y \<noteq> Inl Runtime_error_append"
proof (rule slist_get_last.raw_induct [where P = "\<lambda>h a y. y \<noteq> Inl Runtime_error_append"])
  fix f h a y
  assume "\<And>h a y. f h a = Some y \<Longrightarrow> y \<noteq> Inl Runtime_error_append"
    and "(case cells h a of
            None \<Rightarrow> Some (Inl Dangling_pointer)
          | Some item \<Rightarrow> (case slist_next item of None \<Rightarrow> Some (Inr a) | Some b \<Rightarrow> f h b)) = Some y"
  then show "y \<noteq> Inl Runtime_error_append"
    by (auto split: option.splits)
qed

lemma curl_slist_free_all_error:
  "curl_slist_free_all list h = Some y \<Longrightarrow> fst y \<noteq> Inl Runtime_error_append"
proof (rule curl_slist_free_all.raw_induct [where P = "\<lambda>list h y. fst y \<noteq> Inl Runtime_error_append"])
  fix f list h y
  assume "\<And>list h y. f list h = Some y \<Longrightarrow> fst y \<noteq> Inl Runtime_error_append"
    and "(case list of
            None \<Rightarrow> Some (Inr (), h)
          | Some a \<Rightarrow>
              (case cells h a of
                 None \<Rightarrow> Some (Inl Dangling_pointer, h)
               | Some item \<Rightarrow> f (slist_next item) (free_node a h))) = Some y"
  then show "fst y \<noteq> Inl Runtime_error_append"
    by (auto split: option.splits)
qed

lemma curl_list_append_raises_only_out_of_memory:
  assumes "curl_list_append v (l, h) = Some (Inl Runtime_error_append, lh')"
  shows "room h = 0"
proof (rule ccontr)
  assume "room h \<noteq> 0"
  then obtain h1 where m: "malloc_node \<lparr>slist_data = v, slist_next = None\<rparr> h = (Some (brk h), h1)"
    by (simp add: malloc_node_def)
  show False
  proof (cases "m_slist l")
    case None
    then show ?thesis
      using assms m by (simp add: curl_list_append_def curl_slist_append_def unique_ptr_reset_def)
  next
    case (Some a)
    show ?thesis
    proof (cases "slist_get_last h1 a")
      case None
      then show ?thesis
        using assms m Some by (simp add: curl_list_append_def curl_slist_append_def)
    next
      case gl: (Some y)
      have ne: "y \<noteq> Inl Runtime_error_append" using slist_get_last_error [OF gl] .
      show ?thesis
      proof (cases y)
        case (Inl e)
        then show ?thesis
          using assms m Some gl ne by (simp add: curl_list_append_def curl_slist_append_def)
      next
        case (Inr last_item)
        show ?thesis
        proof (cases "cells h1 last_item")
          case None
          then show ?thesis
            using assms m Some gl Inr by (simp add: curl_list_append_def curl_slist_append_def)
        next
          case c: (Some item)
          define h2 where "h2 = h1\<lparr>cells := (cells h1)(last_item \<mapsto> item\<lparr>slist_next := Some (brk h)\<rparr>)\<rparr>"
          have app: "curl_slist_append (m_slist l) v h = Some (Inr (Some a), h2)"
            using m Some gl Inr c by (simp add: curl_slist_append_def h2_def)
          show ?thesis
          proof (cases "curl_slist_free_all (Some a) h2")
            case None
            then show ?thesis
              using assms app Some by (simp add: curl_list_append_def unique_ptr_reset_def)
          next
            case fr: (Some z)
            have "fst z \<noteq> Inl Runtime_error_append" using curl_slist_free_all_error [OF fr] .
            then show ?thesis
              using assms app Some fr
              by (cases z) (simp add: curl_list_append_def unique_ptr_reset_def)
          qed
        qed
      qed
    qed
  qed
qed

section \<open>The claims\<close>

text \<open>
  C1. A transfer H1 is added with the completion callback C1, and the engine then
  reports one \<^verbatim>\<open>CURLMSG_DONE\<close> message for H1 with a success code. The claim is that
  \<^verbatim>\<open>check_info\<close> has C1 invoked exactly once with no error, and that H1 is gone from
  the association map. The code does the second and not the first: at this input,
  whatever the engine calls back while the transfer is added and removed (the
  adapter as constructed is \<open>started []\<close>, by \<open>started_Nil\<close>),
  \<^verbatim>\<open>check_info\<close> returns normally, H1 has left the association map, and no callback
  has been posted to the reactor or invoked. \<^verbatim>\<open>remove_handle\<close> has erased the entry of
  H1 from the handler map before \<^verbatim>\<open>check_info\<close> looks it up.
\<close>

theorem check_info_drops_completion_callback:
  "(case add_handle (Some H1) C1 (started cbs) of
      (r1, s1) \<Rightarrow>
        (case check_info (s1\<lparr>m_curlm := (m_curlm s1)\<lparr>msg_queue :=
                 [\<lparr>msg = CURLMSG_DONE, easy_handle = raw H1, result = CURLE_OK\<rparr>]\<rparr>\<rparr>) of
           (r2, s2) \<Rightarrow>
             r1 = Inr () \<and>
             m_handler_map s1 (Some H1) = Some C1 \<and>
             map_of (m_associations s1) (raw H1) = Some (Curl_association H1) \<and>
             r2 = Inr () \<and>
             map_of (m_associations s2) (raw H1) = None \<and>
             m_handler_map s2 (Some H1) = None \<and>
             m_io_service s2 = [] \<and>
             invoked s2 = []))"
  unfolding add_handle_started
  by (simp add: initial_def check_info_Cons check_info_Nil
      check_info_message_def remove_handle_def multi_remove_handle_def and_then_def
      set_option_Some curl_association_dtor_def curl_multi_remove_handle_def
      throw_if_curlm_error_def)

text \<open>
  C2. The claim is that \<^verbatim>\<open>remove_handle\<close> of a pointer that is not a key of the
  association map returns the empty pointer and changes nothing, in \<^verbatim>\<open>curl_multi\<close>
  and in \<^verbatim>\<open>curl_multi_asio\<close>. It holds for \<^verbatim>\<open>curl_multi::remove_handle\<close>
  (\<open>multi_remove_handle_unknown\<close>). \<^verbatim>\<open>curl_multi_asio::remove_handle\<close> calls
  \<^verbatim>\<open>set_option\<close> through the empty pointer it got back: on the adapter as constructed,
  with any pointer, it does not return.
\<close>

theorem remove_handle_unknown_dereferences_null:
  "map_of (m_associations initial) (raw H1) = None \<and>
   multi_remove_handle (raw H1) initial = (Inr None, initial) \<and>
   remove_handle (raw H1) initial = (Inl Null_dereference, initial)"
  by (simp add: remove_handle_unknown multi_remove_handle_unknown initial_def)

text \<open>
  C3. The claim is that adding a transfer a second time succeeds and leaves the adapter
  as one addition does. The engine refuses a transfer it tracks already, and
  \<^verbatim>\<open>curl_association\<close>'s constructor throws what the engine answers: the second
  addition fails.
\<close>

theorem add_handle_twice_counterexample:
  "fst (add_handle (Some H1) C1 initial) = Inr () \<and>
   fst (add_handle (Some H1) C2
          (snd (add_handle (Some H1) C1 initial)))
     = Inl (Runtime_error_curlm CURLM_ADDED_ALREADY)"
  unfolding add_handle_initial
  by (simp add: initial_def add_handle_def and_then_def set_option_Some
      multi_add_handle_def curl_association_ctor_def curl_multi_add_handle_def
      throw_if_curlm_error_def CURLM_OK_def CURLM_ADDED_ALREADY_def)

text \<open>
  C3, amended. When a transfer that has no association is added and the addition
  succeeds, adding it again, with any callback, fails with the engine's
  "added already" error, and the adapter is left exactly as the first addition left
  it: the callback of the second call is not recorded.
\<close>

theorem add_handle_twice_fails:
  assumes "map_of (m_associations s) (raw h) = None"
    and "add_handle (Some h) c s = (Inr (), s1)"
  shows "add_handle (Some h) c' s1 = (Inl (Runtime_error_curlm CURLM_ADDED_ALREADY), s1)"
  using add_handle_first [OF assms] add_handle_registered by blast

theorem add_handle_twice_fails_witness:
  "map_of (m_associations initial) (raw H1) = None \<and>
   fst (add_handle (Some H1) C1 initial) = Inr () \<and>
   add_handle (Some H1) C2
       (snd (add_handle (Some H1) C1 initial))
     = (Inl (Runtime_error_curlm CURLM_ADDED_ALREADY),
        snd (add_handle (Some H1) C1 initial))"
proof -
  have none: "map_of (m_associations initial) (raw H1) = None"
    by (simp add: initial_def)
  have first: "add_handle (Some H1) C1 initial
      = (Inr (), snd (add_handle (Some H1) C1 initial))"
    by (simp add: add_handle_initial)
  have ok: "fst (add_handle (Some H1) C1 initial) = Inr ()"
    by (simp add: add_handle_initial)
  show ?thesis
    using none ok add_handle_twice_fails [OF none first, of C2] by blast
qed

text \<open>
  C4. When the timer callback is called with a value that is not positive, the
  progress call \<open>Timer_callback Success\<close> is queued on the strand, behind the
  completions of the waits that were cancelled; nothing else of the adapter changes,
  so nothing has run in place. When it is called with a positive value, the
  outstanding waits are cancelled and one wait is armed for that many milliseconds;
  when that wait expires the same progress call is queued, and when it is cancelled
  first, a call with \<open>Operation_aborted\<close> is queued instead, which does nothing. The
  progress call is \<^verbatim>\<open>socket_action\<close> with the reserved timeout socket and an empty event
  mask, followed by \<^verbatim>\<open>check_info\<close>.
\<close>

theorem static_timer_callback_schedules_progress:
  "(timeout_ms \<le> 0 \<longrightarrow>
      static_timer_callback timeout_ms s =
        (0, s\<lparr>m_strand := m_strand s @ map (\<lambda>h. h Operation_aborted) (waits (m_timer s))
                           @ [Timer_callback Success],
               m_timer := (m_timer s)\<lparr>waits := []\<rparr>\<rparr>)) \<and>
   (0 < timeout_ms \<longrightarrow>
      static_timer_callback timeout_ms s =
        (0, s\<lparr>m_strand := m_strand s @ map (\<lambda>h. h Operation_aborted) (waits (m_timer s)),
               m_timer := (m_timer s)\<lparr>expiry := Some timeout_ms, waits := [Timer_callback]\<rparr>\<rparr>) \<and>
      m_strand (timer_expires (snd (static_timer_callback timeout_ms s))) =
        m_strand (snd (static_timer_callback timeout_ms s)) @ [Timer_callback Success] \<and>
      m_strand (timer_cancel (snd (static_timer_callback timeout_ms s))) =
        m_strand (snd (static_timer_callback timeout_ms s)) @ [Timer_callback Operation_aborted]) \<and>
   run_task (Timer_callback Success) s =
     and_then (socket_action CURL_SOCKET_TIMEOUT 0) (\<lambda>_. check_info) s \<and>
   socket_action CURL_SOCKET_TIMEOUT 0 s =
     (Inr (), s\<lparr>m_curlm := (m_curlm s)\<lparr>socket_actions :=
                 socket_actions (m_curlm s) @ [(CURL_SOCKET_TIMEOUT, 0)]\<rparr>\<rparr>) \<and>
   run_task (Timer_callback Operation_aborted) s = (Inr (), s)"
  by (simp add: static_timer_callback_nonpositive static_timer_callback_positive
      timer_expires_def timer_cancel_def run_task_def timer_callback_def socket_action_def
      curl_multi_socket_action_def throw_if_curlm_error_def)

theorem static_timer_callback_schedules_progress_witness:
  "static_timer_callback 250 initial =
     (0, initial\<lparr>m_timer := \<lparr>expiry = Some 250, waits = [Timer_callback]\<rparr>\<rparr>) \<and>
   m_strand (timer_expires (snd (static_timer_callback 250 initial))) = [Timer_callback Success] \<and>
   static_timer_callback 0 (initial\<lparr>m_timer := \<lparr>expiry = Some 250, waits = [Timer_callback]\<rparr>\<rparr>) =
     (0, initial\<lparr>m_strand := [Timer_callback Operation_aborted, Timer_callback Success],
                  m_timer := \<lparr>expiry = Some 250, waits = []\<rparr>\<rparr>)"
proof -
  have pos: "(0::int) < 250" and nonpos: "(0::int) \<le> 0" by simp_all
  have a: "static_timer_callback 250 initial =
      (0, initial\<lparr>m_timer := \<lparr>expiry = Some 250, waits = [Timer_callback]\<rparr>\<rparr>)"
    using static_timer_callback_schedules_progress [of 250 initial] pos
    by (simp add: initial_def)
  have "m_strand (timer_expires (snd (static_timer_callback 250 initial))) =
      m_strand (snd (static_timer_callback 250 initial)) @ [Timer_callback Success]"
    using static_timer_callback_schedules_progress [of 250 initial] pos by blast
  then have b: "m_strand (timer_expires (snd (static_timer_callback 250 initial))) =
      [Timer_callback Success]"
    unfolding a by (simp add: initial_def)
  have c: "static_timer_callback 0
      (initial\<lparr>m_timer := \<lparr>expiry = Some 250, waits = [Timer_callback]\<rparr>\<rparr>) =
     (0, initial\<lparr>m_strand := [Timer_callback Operation_aborted, Timer_callback Success],
                  m_timer := \<lparr>expiry = Some 250, waits = []\<rparr>\<rparr>)"
    using static_timer_callback_schedules_progress
      [of 0 "initial\<lparr>m_timer := \<lparr>expiry = Some 250, waits = [Timer_callback]\<rparr>\<rparr>"] nonpos
    by (simp add: initial_def)
  show ?thesis using a b c by blast
qed

text \<open>
  C5. The claim is that \<^verbatim>\<open>reset\<close> followed by \<^verbatim>\<open>append\<close> of the lines \<open>l1..ln\<close> gives a
  list that reads \<open>l1..ln\<close> from the raw pointer. For one line it does. For two lines
  both calls return normally, and the raw pointer is then the address of a node that
  has been freed: the second \<^verbatim>\<open>append\<close> gets back from the engine the head it already
  holds, and \<^verbatim>\<open>m_slist.reset\<close> with that pointer frees the whole chain, the new node
  included. Reading the list from the raw pointer reads freed memory.
\<close>

theorem header_list_two_appends_dangle:
  "curl_list_reset (curl_list_ctor, empty_heap) = Some (Inr (), (curl_list_ctor, empty_heap)) \<and>
   append_all [''Accept: text/html''] (curl_list_ctor, empty_heap) =
     Some (Inr (), after_first_append) \<and>
   traversal (snd after_first_append) (curl_list_raw (fst after_first_append)) =
     Some (Inr [''Accept: text/html'']) \<and>
   append_all [''Accept: text/html'', ''Expect:''] (curl_list_ctor, empty_heap) =
     Some (Inr (), (\<lparr>m_slist = Some 0\<rparr>, \<lparr>cells = Map.empty, brk = 2, room = 8\<rparr>)) \<and>
   traversal \<lparr>cells = Map.empty, brk = 2, room = 8\<rparr> (curl_list_raw \<lparr>m_slist = Some 0\<rparr>) =
     Some (Inl Dangling_pointer)"
  by (simp add: curl_list_reset_def curl_list_append_def curl_slist_append_def malloc_node_def
      empty_heap_def curl_list_ctor_def unique_ptr_reset_def slist_get_last.simps
      curl_slist_free_all.simps free_node_def after_first_append_def traversal_def
      slist_walk.simps curl_list_raw_def)

text \<open>
  C6. The claim is that \<^verbatim>\<open>append\<close> raises exactly when the engine cannot allocate,
  that the list is unchanged then, and that on success the raw pointer refers to the
  head of the chain. The first two hold (\<open>curl_list_append_out_of_memory\<close>,
  \<open>curl_list_append_raises_only_out_of_memory\<close>). The third fails when the list
  is not empty: on the list that holds one line, \<^verbatim>\<open>append\<close> returns normally and the
  raw pointer is an address that holds no node any more (\<open>curl_list_append_second\<close>
  shows it for every such list and store). With no room left in the same store,
  \<^verbatim>\<open>append\<close> raises and changes nothing.
\<close>

theorem header_list_append_frees_head:
  "curl_list_append ''Expect:'' after_first_append =
     Some (Inr (), (\<lparr>m_slist = Some 0\<rparr>, \<lparr>cells = Map.empty, brk = 2, room = 8\<rparr>)) \<and>
   curl_list_raw \<lparr>m_slist = Some 0\<rparr> = Some 0 \<and>
   cells \<lparr>cells = Map.empty, brk = 2, room = 8\<rparr> 0 = None \<and>
   curl_list_append ''Expect:'' (fst after_first_append, (snd after_first_append)\<lparr>room := 0\<rparr>) =
     Some (Inl Runtime_error_append,
           (fst after_first_append, (snd after_first_append)\<lparr>room := 0\<rparr>))"
  by (simp add: curl_list_append_def curl_slist_append_def malloc_node_def
      unique_ptr_reset_def slist_get_last.simps
      curl_slist_free_all.simps free_node_def after_first_append_def curl_list_raw_def)


text \<open>
  C8. The claim is that every call of the open-socket hook for a stream connection
  of family IPv4 or IPv6 creates a socket, stores it and returns its descriptor. The
  reactor's constructor opens the socket and throws when the operating system cannot
  open one; the hook does not catch that: it then returns nothing and stores nothing.
\<close>

theorem open_socket_callback_counterexample:
  "open_socket_callback CURLSOCKTYPE_IPCXN AF_INET None initial = (Inl System_error, initial)"
  by (simp add: open_socket_callback_def)

text \<open>
  C8, amended. When the purpose is a stream connection and the family is IPv4 or
  IPv6, and the reactor can open a socket, the open-socket hook returns the
  descriptor of the new socket, which is not the bad-socket value, and stores the
  socket, which has the protocol of that family, in the socket table under that
  descriptor, changing nothing else; when the reactor cannot open a socket, its
  error leaves the hook and nothing is changed. For every other purpose or family
  the hook returns the bad-socket value and changes nothing.
\<close>

theorem open_socket_callback_result:
  "(purpose = CURLSOCKTYPE_IPCXN \<and> (family = AF_INET \<or> family = AF_INET6) \<longrightarrow>
      open_socket_callback purpose family (Some fd) s =
        (Inr (int fd),
         s\<lparr>m_socket_map := (m_socket_map s)(int fd \<mapsto> Some \<lparr>native_handle = int fd,
              socket_protocol = (if family = AF_INET then Tcp_v4 else Tcp_v6)\<rparr>)\<rparr>) \<and>
      int fd \<noteq> CURL_SOCKET_BAD \<and>
      open_socket_callback purpose family None s = (Inl System_error, s)) \<and>
   (\<not> (purpose = CURLSOCKTYPE_IPCXN \<and> (family = AF_INET \<or> family = AF_INET6)) \<longrightarrow>
      open_socket_callback purpose family os s = (Inr CURL_SOCKET_BAD, s)) \<and>
   AF_INET \<noteq> AF_INET6"
  by (auto simp: open_socket_callback_def Let_def AF_INET_def AF_INET6_def CURL_SOCKET_BAD_def)

theorem open_socket_callback_result_witness:
  "open_socket_callback CURLSOCKTYPE_IPCXN AF_INET (Some 5) initial =
     (Inr 5, initial\<lparr>m_socket_map :=
        [5 \<mapsto> Some \<lparr>native_handle = 5, socket_protocol = Tcp_v4\<rparr>]\<rparr>) \<and>
   open_socket_callback CURLSOCKTYPE_IPCXN AF_INET6 (Some 6) initial =
     (Inr 6, initial\<lparr>m_socket_map :=
        [6 \<mapsto> Some \<lparr>native_handle = 6, socket_protocol = Tcp_v6\<rparr>]\<rparr>) \<and>
   open_socket_callback CURLSOCKTYPE_IPCXN AF_INET6 None initial = (Inl System_error, initial) \<and>
   open_socket_callback CURLSOCKTYPE_ACCEPT AF_INET (Some 5) initial =
     (Inr CURL_SOCKET_BAD, initial) \<and>
   open_socket_callback CURLSOCKTYPE_IPCXN 1 (Some 5) initial = (Inr CURL_SOCKET_BAD, initial)"
proof -
  have a: "open_socket_callback CURLSOCKTYPE_IPCXN AF_INET (Some 5) initial =
     (Inr 5, initial\<lparr>m_socket_map :=
        [5 \<mapsto> Some \<lparr>native_handle = 5, socket_protocol = Tcp_v4\<rparr>]\<rparr>)"
    using open_socket_callback_result [of CURLSOCKTYPE_IPCXN AF_INET 5 initial None]
    by (simp add: initial_def)
  have b: "open_socket_callback CURLSOCKTYPE_IPCXN AF_INET6 (Some 6) initial =
     (Inr 6, initial\<lparr>m_socket_map :=
        [6 \<mapsto> Some \<lparr>native_handle = 6, socket_protocol = Tcp_v6\<rparr>]\<rparr>)"
    using open_socket_callback_result [of CURLSOCKTYPE_IPCXN AF_INET6 6 initial None]
    by (simp add: initial_def)
  have c: "open_socket_callback CURLSOCKTYPE_IPCXN AF_INET6 None initial =
      (Inl System_error, initial)"
    using open_socket_callback_result [of CURLSOCKTYPE_IPCXN AF_INET6 6 initial None]
    by simp
  have d: "open_socket_callback CURLSOCKTYPE_ACCEPT AF_INET (Some 5) initial =
     (Inr CURL_SOCKET_BAD, initial)"
    using open_socket_callback_result [of CURLSOCKTYPE_ACCEPT AF_INET 5 initial "Some 5"]
    by simp
  have e: "open_socket_callback CURLSOCKTYPE_IPCXN 1 (Some 5) initial =
      (Inr CURL_SOCKET_BAD, initial)"
    using open_socket_callback_result [of CURLSOCKTYPE_IPCXN 1 5 initial "Some 5"]
    by (simp add: AF_INET_def AF_INET6_def)
  show ?thesis
    apply (intro conjI)
        apply (rule a)
       apply (rule b)
      apply (rule c)
     apply (rule d)
    apply (rule e)
    done
qed

text \<open>
  C9. Every call of the timer callback cancels the waits that are outstanding,
  whatever the value: each of them completes with \<open>Operation_aborted\<close>. After the call
  at most one wait is outstanding: the new one when the value is positive, none
  otherwise. So after a call with a value that is not positive the expiry of the
  timer queues nothing: a wait armed earlier cannot fire any more.
\<close>

theorem static_timer_callback_cancels:
  "waits (m_timer (snd (static_timer_callback timeout_ms s))) =
     (if 0 < timeout_ms then [Timer_callback] else []) \<and>
   length (waits (m_timer (snd (static_timer_callback timeout_ms s)))) \<le> 1 \<and>
   m_strand (snd (static_timer_callback timeout_ms s)) =
     m_strand s @ map (\<lambda>h. h Operation_aborted) (waits (m_timer s))
       @ (if 0 < timeout_ms then [] else [Timer_callback Success]) \<and>
   m_strand (timer_expires (snd (static_timer_callback timeout_ms s))) =
     m_strand (snd (static_timer_callback timeout_ms s))
       @ (if 0 < timeout_ms then [Timer_callback Success] else [])"
  by (cases "0 < timeout_ms")
    (simp_all add: static_timer_callback_nonpositive static_timer_callback_positive
      timer_expires_def)

theorem static_timer_callback_cancels_witness:
  "waits (m_timer (snd (static_timer_callback 5000 initial))) = [Timer_callback] \<and>
   waits (m_timer (snd (static_timer_callback 0 (snd (static_timer_callback 5000 initial))))) = [] \<and>
   m_strand (timer_expires (snd (static_timer_callback 0 (snd (static_timer_callback 5000 initial)))))
     = m_strand (snd (static_timer_callback 0 (snd (static_timer_callback 5000 initial))))"
  using static_timer_callback_cancels [of 5000 initial]
    static_timer_callback_cancels [of 0 "snd (static_timer_callback 5000 initial)"]
  by simp

text \<open>
  C10. \<^verbatim>\<open>curl_multi_asio::clear\<close> returns normally and leaves the association map, the
  handler map and the socket table empty. It posts no completion callback to the
  reactor and invokes none: the queue of posted callbacks and the record of
  invocations are as before, and the strand has only grown by what the engine's
  timer function queued while the associations were destroyed. \<^verbatim>\<open>async_clear\<close>
  queues its body on the strand; the body, when the strand runs it, does the same
  and then invokes only the handler \<^verbatim>\<open>async_clear\<close> was given, if that is not empty.
\<close>

theorem clear_empties_all_tables:
  "fst (clear s) = Inr () \<and>
   m_associations (snd (clear s)) = [] \<and>
   m_handler_map (snd (clear s)) = Map.empty \<and>
   m_socket_map (snd (clear s)) = Map.empty \<and>
   m_io_service (snd (clear s)) = m_io_service s \<and>
   invoked (snd (clear s)) = invoked s \<and>
   (\<exists>ts. m_strand (snd (clear s)) = m_strand s @ ts) \<and>
   async_clear handler s = s\<lparr>m_strand := m_strand s @ [Clear handler]\<rparr> \<and>
   run_task (Clear handler) s = async_clear_body handler s \<and>
   fst (async_clear_body handler s) = Inr () \<and>
   m_associations (snd (async_clear_body handler s)) = [] \<and>
   m_handler_map (snd (async_clear_body handler s)) = Map.empty \<and>
   m_socket_map (snd (async_clear_body handler s)) = Map.empty \<and>
   m_io_service (snd (async_clear_body handler s)) = m_io_service s \<and>
   invoked (snd (async_clear_body handler s)) =
     invoked s @ (if handler \<noteq> Empty_function then [(handler, None)] else [])"
proof -
  obtain s' where c: "clear s = (Inr (), s'\<lparr>m_associations := [], m_handler_map := Map.empty,
                               m_socket_map := Map.empty\<rparr>)"
      "m_io_service s' = m_io_service s" "invoked s' = invoked s"
      "\<exists>ts. m_strand s' = m_strand s @ ts"
    using clear_eq [of s] by blast
  have strand: "\<exists>ts. m_strand (snd (clear s)) = m_strand s @ ts"
    using c(1,4) by simp
  show ?thesis
    using c(1,2,3) strand
    by (simp add: async_clear_def run_task_def async_clear_body_def and_then_def)
qed

end
